theory Spec2Isabelle
  imports Complex_Main
begin

section \<open>HC-SR04 measurement on a 96Boards device: the model\<close>

text \<open>
  The development embeds \<^verbatim>\<open>hcsr04sensor/sensor_96boards.py\<close>: the class
  \<^verbatim>\<open>Measurement\<close> with its constructor, \<^verbatim>\<open>raw_distance\<close> and the four
  conversion methods.

  Conventions of the embedding.
  \<^item> Python floats are ideal reals (\<^typ>\<open>real\<close>); rounding error of the hardware
    arithmetic is outside the model.
  \<^item> Python exceptions are values of \<open>py_error\<close>; a call that does not return is
    \<open>None\<close>.
  \<^item> The GPIO library and the clock are the environment: the \<open>k\<close>-th call of
    \<^verbatim>\<open>digital_read\<close> returns \<open>echo_levels w k\<close>, the \<open>k\<close>-th call of
    \<^verbatim>\<open>time.time()\<close> returns \<open>clock w k\<close>, and every access to a pin is appended
    to \<open>trace w\<close>.
  \<^item> Line 83 of the file reads \<^verbatim>\<open>with GPIO(self.pins) as GPIO\<close>, without the colon
    a with-statement needs, so the file as it stands does not compile. The model supplies
    the colon and nothing else. The target \<^verbatim>\<open>as GPIO\<close> then makes \<^verbatim>\<open>GPIO\<close> a
    local variable of \<^verbatim>\<open>raw_distance\<close>, unassigned when \<^verbatim>\<open>GPIO(self.pins)\<close>
    is evaluated: the line raises \<^verbatim>\<open>UnboundLocalError\<close>, and lines 84-106 are never
    reached. They are modelled all the same, as \<open>with_block\<close>, to state what they
    would do; \<open>raw_distance\<close> does not call it.
\<close>

subsection \<open>Errors, pin events and the environment\<close>

text \<open>
  Each error carries its message; \<^verbatim>\<open>UnboundLocalError\<close> carries the name of the
  variable read.
\<close>

datatype py_error =
    ValueError string
  | SystemError string
  | UnboundLocalError string
  | IndexError string

datatype level = LOW | HIGH

datatype io_event =
    Acquire "(int \<times> string) list"
  | Digital_write int level
  | Digital_read int
  | Release

record world =
  echo_levels :: "nat \<Rightarrow> int"
  clock :: "nat \<Rightarrow> real"
  reads :: nat
  ticks :: nat
  trace :: "io_event list"

definition digital_write :: "int \<Rightarrow> level \<Rightarrow> world \<Rightarrow> world" where
  "digital_write pin v w = w\<lparr>trace := trace w @ [Digital_write pin v]\<rparr>"

definition digital_read :: "int \<Rightarrow> world \<Rightarrow> int \<times> world" where
  "digital_read pin w =
     (echo_levels w (reads w),
      w\<lparr>reads := Suc (reads w), trace := trace w @ [Digital_read pin]\<rparr>)"

definition time_time :: "world \<Rightarrow> real \<times> world" where
  "time_time w = (clock w (ticks w), w\<lparr>ticks := Suc (ticks w)\<rparr>)"

text \<open>\<^verbatim>\<open>time.sleep\<close> touches no pin; it raises on a negative duration (Python 3).\<close>

definition time_sleep :: "real \<Rightarrow> world \<Rightarrow> py_error + world" where
  "time_sleep secs w =
     (if secs < 0 then Inl (ValueError ''sleep length must be non-negative'') else Inr w)"

definition gpio_enter :: "(int \<times> string) list \<Rightarrow> world \<Rightarrow> world" where
  "gpio_enter ps w = w\<lparr>trace := trace w @ [Acquire ps]\<rparr>"

definition gpio_exit :: "world \<Rightarrow> world" where
  "gpio_exit w = w\<lparr>trace := trace w @ [Release]\<rparr>"

text \<open>\<^verbatim>\<open>math.sqrt\<close> raises on a negative argument.\<close>

definition math_sqrt :: "real \<Rightarrow> py_error + real" where
  "math_sqrt x = (if x < 0 then Inl (ValueError ''math domain error'') else Inr (sqrt x))"

text \<open>
  \<^verbatim>\<open>xs[i]\<close> on a Python list: an index from \<open>0\<close> up to the length reads from the
  front, one from \<open>- length\<close> up to \<open>-1\<close> reads from the back, any other raises.
\<close>

definition list_index :: "'a list \<Rightarrow> int \<Rightarrow> py_error + 'a" where
  "list_index xs i =
     (if 0 \<le> i \<and> i < int (length xs) then Inr (xs ! nat i)
      else if i < 0 \<and> - int (length xs) \<le> i then Inr (xs ! nat (int (length xs) + i))
      else Inl (IndexError ''list index out of range''))"

text \<open>
  Python 3's \<^verbatim>\<open>round(x, ndigits)\<close> on ideal reals: the nearest multiple of
  \<open>10 ^ (- ndigits)\<close>, a tie going to the even multiple.
\<close>

definition round_half_even :: "real \<Rightarrow> int" where
  "round_half_even x =
     (let f = \<lfloor>x\<rfloor>; d = x - of_int f
      in if d < 1 / 2 then f else if 1 / 2 < d then f + 1
         else if even f then f else f + 1)"

definition py_round :: "real \<Rightarrow> int \<Rightarrow> real" where
  "py_round x ndigits =
     (if 0 \<le> ndigits
      then of_int (round_half_even (x * 10 ^ nat ndigits)) / 10 ^ nat ndigits
      else of_int (round_half_even (x / 10 ^ nat (- ndigits))) * 10 ^ nat (- ndigits))"

subsection \<open>The class \<^verbatim>\<open>Measurement\<close>\<close>

record Measurement =
  trig_pin :: int
  echo_pin :: int
  temperature :: real
  unit :: string
  round_to :: int
  pins :: "(int \<times> string) list"

text \<open>\<^verbatim>\<open>__init__\<close> (lines 22-37) stores its arguments; it has no raising branch.\<close>

definition Measurement_init ::
  "int \<Rightarrow> int \<Rightarrow> real \<Rightarrow> string \<Rightarrow> int \<Rightarrow> py_error + Measurement" where
  "Measurement_init trig echo temp u r =
     Inr \<lparr>trig_pin = trig, echo_pin = echo, temperature = temp, unit = u, round_to = r,
          pins = [(trig, ''out''), (echo, ''in'')]\<rparr>"

subsection \<open>\<^verbatim>\<open>raw_distance\<close>, lines 90-98: the two polling loops of the block\<close>

text \<open>
  Lines 91-96: the loop that polls while the echo pin reads 0. The counter starts at 1
  (line 90); a low reading with the counter at 1000 raises.
\<close>

function echo_low_wait ::
  "int \<Rightarrow> int \<Rightarrow> real option \<Rightarrow> world \<Rightarrow> (py_error + real option) \<times> world" where
  "echo_low_wait pin echo_status_counter sonar_signal_off w =
     (case digital_read pin w of
        (lv, w1) \<Rightarrow>
          if lv = 0 then
            (if echo_status_counter < 1000 then
               (case time_time w1 of
                  (t, w2) \<Rightarrow> echo_low_wait pin (echo_status_counter + 1) (Some t) w2)
             else (Inl (SystemError ''Echo pulse was not received''), w1))
          else (Inr sonar_signal_off, w1))"
  by pat_completeness auto
termination
  by (relation "measure (\<lambda>(pin, c, off, w). nat (1000 - c))") auto

declare echo_low_wait.simps [simp del]

text \<open>
  Lines 97-98: the loop that polls while the echo pin reads 1. The source gives it no
  counter, so it is a partial function: \<open>None\<close> is a loop that never exits.
\<close>

partial_function (option) echo_high_wait ::
  "int \<Rightarrow> real option \<Rightarrow> world \<Rightarrow> (real option \<times> world) option" where
  "echo_high_wait pin sonar_signal_on w =
     (case digital_read pin w of
        (lv, w1) \<Rightarrow>
          if lv = 1 then
            (case time_time w1 of (t, w2) \<Rightarrow> echo_high_wait pin (Some t) w2)
          else Some (sonar_signal_on, w1))"

declare echo_high_wait.simps [code]

subsection \<open>\<^verbatim>\<open>raw_distance\<close>: one reading, the sample loop, the median, line 83\<close>

text \<open>
  The function-level variables that live across iterations of the \<^verbatim>\<open>for\<close> loop:
  the two timestamps (\<open>None\<close> while unassigned) and the list \<^verbatim>\<open>sample\<close>.
\<close>

record locals =
  sonar_signal_off :: "real option"
  sonar_signal_on :: "real option"
  sample :: "real list"

text \<open>
  Lines 85-101, the body of the \<^verbatim>\<open>for\<close> loop. Line 99 evaluates
  \<^verbatim>\<open>sonar_signal_on\<close> before \<^verbatim>\<open>sonar_signal_off\<close>; reading an unassigned
  local raises \<^verbatim>\<open>UnboundLocalError\<close>.
\<close>

definition distance_reading ::
  "Measurement \<Rightarrow> real \<Rightarrow> real \<Rightarrow> locals \<Rightarrow> world \<Rightarrow> ((py_error + locals) \<times> world) option" where
  "distance_reading self sample_wait speed_of_sound l w =
     (let w1 = digital_write (trig_pin self) LOW w in
      case time_sleep sample_wait w1 of
        Inl e \<Rightarrow> Some (Inl e, w1)
      | Inr w2 \<Rightarrow>
         (let w3 = digital_write (trig_pin self) HIGH w2 in
          case time_sleep 0.00001 w3 of
            Inl e \<Rightarrow> Some (Inl e, w3)
          | Inr w4 \<Rightarrow>
             (let w5 = digital_write (trig_pin self) LOW w4 in
              case echo_low_wait (echo_pin self) 1 (sonar_signal_off l) w5 of
                (Inl e, w6) \<Rightarrow> Some (Inl e, w6)
              | (Inr off, w6) \<Rightarrow>
                 (case echo_high_wait (echo_pin self) (sonar_signal_on l) w6 of
                    None \<Rightarrow> None
                  | Some (on, w7) \<Rightarrow>
                     (case on of
                        None \<Rightarrow> Some (Inl (UnboundLocalError ''sonar_signal_on''), w7)
                      | Some t_on \<Rightarrow>
                         (case off of
                            None \<Rightarrow> Some (Inl (UnboundLocalError ''sonar_signal_off''), w7)
                          | Some t_off \<Rightarrow>
                             (let time_passed = t_on - t_off;
                                  distance_cm = time_passed * ((speed_of_sound * 100) / 2)
                              in Some (Inr \<lparr>sonar_signal_off = off, sonar_signal_on = on,
                                           sample = sample l @ [distance_cm]\<rparr>, w7))))))))"

text \<open>Line 84: \<^verbatim>\<open>for distance_reading in range(sample_size)\<close>, by the iterations left.\<close>

fun sample_loop ::
  "nat \<Rightarrow> Measurement \<Rightarrow> real \<Rightarrow> real \<Rightarrow> locals \<Rightarrow> world \<Rightarrow> ((py_error + locals) \<times> world) option" where
  "sample_loop 0 self sample_wait speed_of_sound l w = Some (Inr l, w)"
| "sample_loop (Suc n) self sample_wait speed_of_sound l w =
     (case distance_reading self sample_wait speed_of_sound l w of
        None \<Rightarrow> None
      | Some (Inl e, w') \<Rightarrow> Some (Inl e, w')
      | Some (Inr l', w') \<Rightarrow> sample_loop n self sample_wait speed_of_sound l' w')"

text \<open>Lines 102-106: sort the sample and index it at \<^verbatim>\<open>sample_size // 2\<close>.\<close>

definition sorted_sample_middle :: "real list \<Rightarrow> int \<Rightarrow> py_error + real" where
  "sorted_sample_middle smp sample_size =
     (let sorted_sample = sort smp in list_index sorted_sample (sample_size div 2))"

text \<open>
  Lines 83-106 as they would run if line 83 bound a handle: the pins are acquired, the
  loop collects \<^verbatim>\<open>range(sample_size)\<close> readings (none for a non-positive size),
  the middle of the sorted sample is returned, and the pins are released on every exit.
  No call of the source gets here.
\<close>

definition with_block ::
  "Measurement \<Rightarrow> int \<Rightarrow> real \<Rightarrow> real \<Rightarrow> world \<Rightarrow> ((py_error + real) \<times> world) option" where
  "with_block self sample_size sample_wait speed_of_sound w =
     (let l0 = \<lparr>sonar_signal_off = None, sonar_signal_on = None, sample = []\<rparr>;
          w1 = gpio_enter (pins self) w
      in case sample_loop (nat sample_size) self sample_wait speed_of_sound l0 w1 of
           None \<Rightarrow> None
         | Some (Inl e, w2) \<Rightarrow> Some (Inl e, gpio_exit w2)
         | Some (Inr l, w2) \<Rightarrow>
             Some (sorted_sample_middle (sample l) sample_size, gpio_exit w2))"

text \<open>
  Lines 80-83, what a call with a valid unit does: the speed of sound from the stored
  temperature (line 80, where \<^verbatim>\<open>math.sqrt\<close> may raise), the empty sample (line 81),
  and line 83, which reads the unassigned local \<^verbatim>\<open>GPIO\<close> and raises before any pin
  is acquired. The speed of sound is computed and never used.
\<close>

definition measure_block ::
  "Measurement \<Rightarrow> int \<Rightarrow> real \<Rightarrow> world \<Rightarrow> ((py_error + real) \<times> world) option" where
  "measure_block self sample_size sample_wait w =
     (case math_sqrt (1 + (temperature self / 273.15)) of
        Inl e \<Rightarrow> Some (Inl e, w)
      | Inr rt \<Rightarrow>
         (let speed_of_sound = 331.3 * rt
          in Some (Inl (UnboundLocalError ''GPIO''), w)))"

text \<open>
  \<^verbatim>\<open>raw_distance\<close> (lines 39-106). Lines 72-78 come first: the imperial branch
  assigns to \<^verbatim>\<open>self.temperature\<close>, so the method returns the object as it leaves it.
  The result is an option, \<open>None\<close> standing for a call that does not return.
\<close>

definition raw_distance ::
  "Measurement \<Rightarrow> int \<Rightarrow> real \<Rightarrow> world \<Rightarrow> ((py_error + real) \<times> Measurement \<times> world) option" where
  "raw_distance self sample_size sample_wait w =
     (if unit self = ''imperial'' then
        (let self' = self\<lparr>temperature := (temperature self - 32) * 0.5556\<rparr>
         in map_option (\<lambda>(r, w'). (r, self', w')) (measure_block self' sample_size sample_wait w))
      else if unit self = ''metric'' then
        map_option (\<lambda>(r, w'). (r, self, w')) (measure_block self sample_size sample_wait w)
      else
        Some (Inl (ValueError ''Wrong Unit Type. Unit Must be imperial or metric''), self, w))"

subsection \<open>The conversion methods (lines 108-126)\<close>

definition depth_metric :: "Measurement \<Rightarrow> real \<Rightarrow> real \<Rightarrow> real" where
  "depth_metric self median_reading hole_depth =
     py_round (hole_depth - median_reading) (round_to self)"

definition depth_imperial :: "Measurement \<Rightarrow> real \<Rightarrow> real \<Rightarrow> real" where
  "depth_imperial self median_reading hole_depth =
     py_round (hole_depth - (median_reading * 0.394)) (round_to self)"

definition distance_metric :: "Measurement \<Rightarrow> real \<Rightarrow> real" where
  "distance_metric self median_reading = py_round median_reading (round_to self)"

definition distance_imperial :: "Measurement \<Rightarrow> real \<Rightarrow> real" where
  "distance_imperial self median_reading = py_round (median_reading * 0.394) (round_to self)"

subsection \<open>Echo waveforms, for stating what the block computes\<close>

text \<open>
  \<open>echo_pulse e r k h\<close>: from the \<open>r\<close>-th read on, the echo pin reads low \<open>k\<close>
  times (fewer than 1000), then a level other than 0 (the edge that ends the first loop),
  then high \<open>h\<close> times, then a level other than 1 (the reading that ends the second
  loop). One reading of lines 85-101 on such a waveform makes \<open>k + h + 2\<close> reads and
  \<open>k + h\<close> calls of the clock.
\<close>

definition echo_pulse :: "(nat \<Rightarrow> int) \<Rightarrow> nat \<Rightarrow> nat \<Rightarrow> nat \<Rightarrow> bool" where
  "echo_pulse e r k h \<longleftrightarrow>
     k < 1000 \<and> (\<forall>i<k. e (r + i) = 0) \<and> e (r + k) \<noteq> 0 \<and>
     (\<forall>i<h. e (r + Suc k + i) = 1) \<and> e (r + Suc k + h) \<noteq> 1"

text \<open>
  A train of pulses, one per sample, each with at least one low and one high reading.
\<close>

fun echo_pulses :: "(nat \<Rightarrow> int) \<Rightarrow> nat \<Rightarrow> (nat \<times> nat) list \<Rightarrow> bool" where
  "echo_pulses e r [] = True"
| "echo_pulses e r ((k, h) # ps) =
     (0 < k \<and> 0 < h \<and> echo_pulse e r k h \<and> echo_pulses e (r + k + h + 2) ps)"

fun pulse_reads :: "(nat \<times> nat) list \<Rightarrow> nat" where
  "pulse_reads [] = 0"
| "pulse_reads ((k, h) # ps) = k + h + 2 + pulse_reads ps"

fun pulse_ticks :: "(nat \<times> nat) list \<Rightarrow> nat" where
  "pulse_ticks [] = 0"
| "pulse_ticks ((k, h) # ps) = k + h + pulse_ticks ps"

text \<open>
  The per-sample distances in the words of the specification: for each pulse, the time
  from the timestamp of the last low reading before the edge to the timestamp of the last
  high reading, times \<open>v \<times> 100\<close>, halved. With the clock at tick \<open>t\<close> when the
  sample starts, these are ticks \<open>t + k - 1\<close> and \<open>t + k + h - 1\<close>.
\<close>

fun spec_distances :: "(nat \<Rightarrow> real) \<Rightarrow> nat \<Rightarrow> real \<Rightarrow> (nat \<times> nat) list \<Rightarrow> real list" where
  "spec_distances c t v [] = []"
| "spec_distances c t v ((k, h) # ps) =
     (c (t + k + h - 1) - c (t + k - 1)) * (v * 100) / 2 # spec_distances c (t + k + h) v ps"

text \<open>The temperature in Celsius in the words of the specification.\<close>

definition spec_celsius :: "string \<Rightarrow> real \<Rightarrow> real" where
  "spec_celsius u t = (if u = ''imperial'' then (t - 32) * 0.5556 else t)"

text \<open>The pin accesses of one reading on a pulse of shape \<open>(k, h)\<close>.\<close>

definition reading_trace :: "Measurement \<Rightarrow> nat \<Rightarrow> io_event list" where
  "reading_trace self m =
     [Digital_write (trig_pin self) LOW, Digital_write (trig_pin self) HIGH,
      Digital_write (trig_pin self) LOW] @ replicate m (Digital_read (echo_pin self))"

fun pulses_trace :: "Measurement \<Rightarrow> (nat \<times> nat) list \<Rightarrow> io_event list" where
  "pulses_trace self [] = []"
| "pulses_trace self ((k, h) # ps) = reading_trace self (k + h + 2) @ pulses_trace self ps"

subsection \<open>Example inputs\<close>

text \<open>
  A sensor on GPIO 36 (trigger) and GPIO 13 (echo) as \<^verbatim>\<open>__init__\<close> leaves it; a world
  in which nothing has happened yet; an echo line that reads low, high, high, low over
  and over (one low and one high reading per sample); and a clock on which the \<open>j\<close>-th
  such pulse lasts \<open>ds ! j\<close> seconds.
\<close>

definition example_sensor :: "real \<Rightarrow> string \<Rightarrow> Measurement" where
  "example_sensor temp u =
     \<lparr>trig_pin = 36, echo_pin = 13, temperature = temp, unit = u, round_to = 1,
      pins = [(36, ''out''), (13, ''in'')]\<rparr>"

definition fresh_world :: "(nat \<Rightarrow> int) \<Rightarrow> (nat \<Rightarrow> real) \<Rightarrow> world" where
  "fresh_world e c = \<lparr>echo_levels = e, clock = c, reads = 0, ticks = 0, trace = []\<rparr>"

definition square_wave :: "nat \<Rightarrow> int" where
  "square_wave i = (if i mod 4 = 1 \<or> i mod 4 = 2 then 1 else 0)"

definition stamps :: "real list \<Rightarrow> nat \<Rightarrow> real" where
  "stamps ds i =
     real (i div 2) + (if odd i \<and> i div 2 < length ds then ds ! (i div 2) else 0)"

text \<open>
  Three faulty echo lines: one that gives one good pulse and then never leaves low, one
  that gives one good pulse, goes high after one more low reading and stays there, and
  one that already reads high at the first two polls of a sample.
\<close>

definition stuck_low :: "nat \<Rightarrow> int" where
  "stuck_low i = (if i < 4 then square_wave i else 0)"

definition stuck_high :: "nat \<Rightarrow> int" where
  "stuck_high i = (if i < 4 then square_wave i else if i = 4 then 0 else 1)"

definition early_high :: "nat \<Rightarrow> int" where
  "early_high i = (if i mod 4 = 0 \<or> i mod 4 = 1 then 1 else 0)"

section \<open>The polling loops of the block\<close>

lemma echo_low_wait_edge:
  "(\<forall>i<k. echo_levels w (reads w + i) = 0) \<Longrightarrow> echo_levels w (reads w + k) \<noteq> 0 \<Longrightarrow>
   c + int k \<le> 1000 \<Longrightarrow>
   echo_low_wait pin c off w =
     (Inr (if k = 0 then off else Some (clock w (ticks w + k - 1))),
      w\<lparr>reads := reads w + Suc k, ticks := ticks w + k,
        trace := trace w @ replicate (Suc k) (Digital_read pin)\<rparr>)"
proof (induction k arbitrary: c off w)
  case 0
  then show ?case by (subst echo_low_wait.simps) (simp add: digital_read_def)
next
  case (Suc k)
  let ?w2 = "w\<lparr>reads := Suc (reads w), trace := trace w @ [Digital_read pin], ticks := Suc (ticks w)\<rparr>"
  have z: "echo_levels w (reads w) = 0" using Suc.prems(1) by (metis add.right_neutral zero_less_Suc)
  have c: "c < 1000" using Suc.prems(3) by simp
  have step: "echo_low_wait pin c off w = echo_low_wait pin (c + 1) (Some (clock w (ticks w))) ?w2"
    using z c by (subst echo_low_wait.simps) (simp add: digital_read_def time_time_def)
  have a1: "\<forall>i<k. echo_levels ?w2 (reads ?w2 + i) = 0"
    using Suc.prems(1) by (simp) (metis Suc_less_eq add_Suc_right)
  have a2: "echo_levels ?w2 (reads ?w2 + k) \<noteq> 0" using Suc.prems(2) by simp
  have a3: "c + 1 + int k \<le> 1000" using Suc.prems(3) by simp
  show ?case
    unfolding step Suc.IH [OF a1 a2 a3]
    by (simp add: replicate_append_same)
qed

lemma echo_low_wait_timeout:
  "(\<forall>i\<le>m. echo_levels w (reads w + i) = 0) \<Longrightarrow> c + int m = 1000 \<Longrightarrow>
   echo_low_wait pin c off w =
     (Inl (SystemError ''Echo pulse was not received''),
      w\<lparr>reads := reads w + Suc m, ticks := ticks w + m,
        trace := trace w @ replicate (Suc m) (Digital_read pin)\<rparr>)"
proof (induction m arbitrary: c off w)
  case 0
  then show ?case by (subst echo_low_wait.simps) (simp add: digital_read_def)
next
  case (Suc m)
  let ?w2 = "w\<lparr>reads := Suc (reads w), trace := trace w @ [Digital_read pin], ticks := Suc (ticks w)\<rparr>"
  have z: "echo_levels w (reads w) = 0" using Suc.prems(1) by (metis add.right_neutral le0)
  have c: "c < 1000" using Suc.prems(2) by simp
  have step: "echo_low_wait pin c off w = echo_low_wait pin (c + 1) (Some (clock w (ticks w))) ?w2"
    using z c by (subst echo_low_wait.simps) (simp add: digital_read_def time_time_def)
  have a1: "\<forall>i\<le>m. echo_levels ?w2 (reads ?w2 + i) = 0"
    using Suc.prems(1) by (simp) (metis Suc_le_mono add_Suc_right)
  have a3: "c + 1 + int m = 1000" using Suc.prems(2) by simp
  show ?case
    unfolding step Suc.IH [OF a1 a3]
    by (simp add: replicate_append_same)
qed

lemma echo_high_wait_edge:
  "(\<forall>i<h. echo_levels w (reads w + i) = 1) \<Longrightarrow> echo_levels w (reads w + h) \<noteq> 1 \<Longrightarrow>
   echo_high_wait pin on w =
     Some (if h = 0 then on else Some (clock w (ticks w + h - 1)),
      w\<lparr>reads := reads w + Suc h, ticks := ticks w + h,
        trace := trace w @ replicate (Suc h) (Digital_read pin)\<rparr>)"
proof (induction h arbitrary: on w)
  case 0
  then show ?case by (subst echo_high_wait.simps) (simp add: digital_read_def)
next
  case (Suc h)
  let ?w2 = "w\<lparr>reads := Suc (reads w), trace := trace w @ [Digital_read pin], ticks := Suc (ticks w)\<rparr>"
  have z: "echo_levels w (reads w) = 1" using Suc.prems(1) by (metis add.right_neutral zero_less_Suc)
  have step: "echo_high_wait pin on w = echo_high_wait pin (Some (clock w (ticks w))) ?w2"
    using z by (subst echo_high_wait.simps) (simp add: digital_read_def time_time_def)
  have a1: "\<forall>i<h. echo_levels ?w2 (reads ?w2 + i) = 1"
    using Suc.prems(1) by (simp) (metis Suc_less_eq add_Suc_right)
  have a2: "echo_levels ?w2 (reads ?w2 + h) \<noteq> 1" using Suc.prems(2) by simp
  show ?case
    unfolding step Suc.IH [OF a1 a2]
    by (simp add: replicate_append_same)
qed


lemma echo_high_wait_returns_low:
  assumes ret: "echo_high_wait pin on w = Some r"
  shows "\<exists>i. echo_levels w (reads w + i) \<noteq> 1"
proof (rule echo_high_wait.raw_induct
    [where P = "\<lambda>pin on w r. \<exists>i. echo_levels w (reads w + i) \<noteq> 1", OF _ ret], goal_cases)
  case (1 f p s v y)
  show ?case
  proof (cases "echo_levels v (reads v) = 1")
    case True
    let ?v2 = "v\<lparr>reads := Suc (reads v), trace := trace v @ [Digital_read p], ticks := Suc (ticks v)\<rparr>"
    from 1(2) True have "f p (Some (clock v (ticks v))) ?v2 = Some y"
      by (simp add: digital_read_def time_time_def)
    from 1(1) [OF this] obtain i where "echo_levels v (Suc (reads v) + i) \<noteq> 1" by auto
    then have "echo_levels v (reads v + Suc i) \<noteq> 1" by simp
    then show ?thesis by blast
  next
    case False
    then show ?thesis by (metis add.right_neutral)
  qed
qed

lemma echo_high_wait_forever:
  "(\<forall>i. echo_levels w (reads w + i) = 1) \<Longrightarrow> echo_high_wait pin on w = None"
  using echo_high_wait_returns_low [of pin on w] by (cases "echo_high_wait pin on w") auto

section \<open>One reading of the block\<close>

lemma distance_reading_start:
  assumes "0 \<le> sample_wait"
  shows "distance_reading self sample_wait v l w =
     (case echo_low_wait (echo_pin self) 1 (sonar_signal_off l)
             (w\<lparr>trace := trace w @ reading_trace self 0\<rparr>) of
        (Inl e, w6) \<Rightarrow> Some (Inl e, w6)
      | (Inr off, w6) \<Rightarrow>
         (case echo_high_wait (echo_pin self) (sonar_signal_on l) w6 of
            None \<Rightarrow> None
          | Some (on, w7) \<Rightarrow>
             (case on of
                None \<Rightarrow> Some (Inl (UnboundLocalError ''sonar_signal_on''), w7)
              | Some t_on \<Rightarrow>
                 (case off of
                    None \<Rightarrow> Some (Inl (UnboundLocalError ''sonar_signal_off''), w7)
                  | Some t_off \<Rightarrow>
                     (let time_passed = t_on - t_off;
                          distance_cm = time_passed * ((v * 100) / 2)
                      in Some (Inr \<lparr>sonar_signal_off = off, sonar_signal_on = on,
                                   sample = sample l @ [distance_cm]\<rparr>, w7))))))"
  using assms
  by (simp add: distance_reading_def time_sleep_def digital_write_def reading_trace_def Let_def)

lemma distance_reading_pulse:
  assumes wait: "0 \<le> sample_wait"
    and pulse: "echo_pulse (echo_levels w) (reads w) k h"
  shows "distance_reading self sample_wait v l w =
     (let off = (if k = 0 then sonar_signal_off l else Some (clock w (ticks w + k - 1)));
          on = (if h = 0 then sonar_signal_on l else Some (clock w (ticks w + k + h - 1)));
          w' = w\<lparr>reads := reads w + k + h + 2, ticks := ticks w + k + h,
                  trace := trace w @ reading_trace self (k + h + 2)\<rparr>
      in case on of
           None \<Rightarrow> Some (Inl (UnboundLocalError ''sonar_signal_on''), w')
         | Some t_on \<Rightarrow>
            (case off of
               None \<Rightarrow> Some (Inl (UnboundLocalError ''sonar_signal_off''), w')
             | Some t_off \<Rightarrow>
                 Some (Inr \<lparr>sonar_signal_off = off, sonar_signal_on = on,
                             sample = sample l @ [(t_on - t_off) * ((v * 100) / 2)]\<rparr>, w')))"
proof -
  let ?w5 = "w\<lparr>trace := trace w @ reading_trace self 0\<rparr>"
  let ?off = "if k = 0 then sonar_signal_off l else Some (clock w (ticks w + k - 1))"
  let ?w6 = "?w5\<lparr>reads := reads ?w5 + Suc k, ticks := ticks ?w5 + k,
        trace := trace ?w5 @ replicate (Suc k) (Digital_read (echo_pin self))\<rparr>"
  from pulse have k: "k < 1000" and lo: "\<forall>i<k. echo_levels w (reads w + i) = 0"
    and edge: "echo_levels w (reads w + k) \<noteq> 0"
    and hi: "\<forall>i<h. echo_levels w (reads w + Suc k + i) = 1"
    and fall: "echo_levels w (reads w + Suc k + h) \<noteq> 1"
    by (simp_all add: echo_pulse_def)
  have low: "echo_low_wait (echo_pin self) 1 (sonar_signal_off l) ?w5 = (Inr ?off, ?w6)"
    using echo_low_wait_edge [of k ?w5 1 "echo_pin self" "sonar_signal_off l"] lo edge k
    by simp
  have high: "echo_high_wait (echo_pin self) (sonar_signal_on l) ?w6 =
      Some (if h = 0 then sonar_signal_on l else Some (clock ?w6 (ticks ?w6 + h - 1)),
        ?w6\<lparr>reads := reads ?w6 + Suc h, ticks := ticks ?w6 + h,
          trace := trace ?w6 @ replicate (Suc h) (Digital_read (echo_pin self))\<rparr>)"
    using hi fall by (intro echo_high_wait_edge) simp_all
  show ?thesis
    unfolding distance_reading_start [OF wait] low prod.case sum.case high option.case
    by (simp add: reading_trace_def Let_def replicate_add [symmetric]
        replicate_append_same add.assoc del: replicate_Suc replicate_add
        cong: option.case_cong)
qed

lemma distance_reading_timeout:
  assumes wait: "0 \<le> sample_wait"
    and lo: "\<forall>i<1000. echo_levels w (reads w + i) = 0"
  shows "distance_reading self sample_wait v l w =
     Some (Inl (SystemError ''Echo pulse was not received''),
       w\<lparr>reads := reads w + 1000, ticks := ticks w + 999,
         trace := trace w @ reading_trace self 1000\<rparr>)"
proof -
  let ?w5 = "w\<lparr>trace := trace w @ reading_trace self 0\<rparr>"
  have lo': "\<forall>i\<le>999. echo_levels ?w5 (reads ?w5 + i) = 0" using lo by simp
  have low: "echo_low_wait (echo_pin self) 1 (sonar_signal_off l) ?w5 =
     (Inl (SystemError ''Echo pulse was not received''),
      ?w5\<lparr>reads := reads ?w5 + Suc 999, ticks := ticks ?w5 + 999,
        trace := trace ?w5 @ replicate (Suc 999) (Digital_read (echo_pin self))\<rparr>)"
    by (rule echo_low_wait_timeout [OF lo']) simp
  show ?thesis
    unfolding distance_reading_start [OF wait] low
    by (simp add: reading_trace_def del: replicate_Suc)
qed

lemma distance_reading_forever:
  assumes wait: "0 \<le> sample_wait"
    and k: "k < 1000" and lo: "\<forall>i<k. echo_levels w (reads w + i) = 0"
    and edge: "echo_levels w (reads w + k) \<noteq> 0"
    and hi: "\<forall>i. echo_levels w (reads w + Suc k + i) = 1"
  shows "distance_reading self sample_wait v l w = None"
proof -
  let ?w5 = "w\<lparr>trace := trace w @ reading_trace self 0\<rparr>"
  let ?off = "if k = 0 then sonar_signal_off l else Some (clock w (ticks w + k - 1))"
  let ?w6 = "?w5\<lparr>reads := reads ?w5 + Suc k, ticks := ticks ?w5 + k,
        trace := trace ?w5 @ replicate (Suc k) (Digital_read (echo_pin self))\<rparr>"
  have low: "echo_low_wait (echo_pin self) 1 (sonar_signal_off l) ?w5 = (Inr ?off, ?w6)"
    using echo_low_wait_edge [of k ?w5 1 "echo_pin self" "sonar_signal_off l"] lo edge k
    by simp
  have high: "echo_high_wait (echo_pin self) (sonar_signal_on l) ?w6 = None"
    using hi by (intro echo_high_wait_forever) simp
  show ?thesis
    unfolding distance_reading_start [OF wait] low prod.case sum.case high option.case ..
qed

section \<open>The sample loop of the block\<close>

lemma sample_loop_add:
  "sample_loop (a + b) self sample_wait v l w =
     (case sample_loop a self sample_wait v l w of
        None \<Rightarrow> None
      | Some (Inl e, w') \<Rightarrow> Some (Inl e, w')
      | Some (Inr l', w') \<Rightarrow> sample_loop b self sample_wait v l' w')"
  by (induction a arbitrary: l w) (auto split: option.splits sum.splits prod.splits)

lemma distance_reading_appends:
  assumes "distance_reading self sample_wait v l w = Some (Inr l', w')"
  shows "\<exists>t_on t_off. sonar_signal_on l' = Some t_on \<and> sonar_signal_off l' = Some t_off \<and>
           sample l' = sample l @ [(t_on - t_off) * (v * 100) / 2]"
  using assms
  by (auto simp: distance_reading_def Let_def
      split: sum.splits prod.splits option.splits)

lemma sample_loop_length:
  "sample_loop n self sample_wait v l w = Some (Inr l', w') \<Longrightarrow>
   length (sample l') = length (sample l) + n"
proof (induction n arbitrary: l w)
  case 0
  then show ?case by simp
next
  case (Suc n)
  from Suc.prems obtain l1 w1 where
    r: "distance_reading self sample_wait v l w = Some (Inr l1, w1)"
    and rest: "sample_loop n self sample_wait v l1 w1 = Some (Inr l', w')"
    by (auto split: option.splits sum.splits prod.splits)
  from distance_reading_appends [OF r] have "length (sample l1) = Suc (length (sample l))"
    by auto
  with Suc.IH [OF rest] show ?case by simp
qed

lemma sample_loop_pulses:
  assumes wait: "0 \<le> sample_wait"
  shows "echo_pulses (echo_levels w) (reads w) ps \<Longrightarrow>
    \<exists>l'. sample_loop (length ps) self sample_wait v l w =
        Some (Inr l', w\<lparr>reads := reads w + pulse_reads ps, ticks := ticks w + pulse_ticks ps,
                         trace := trace w @ pulses_trace self ps\<rparr>) \<and>
      sample l' = sample l @ spec_distances (clock w) (ticks w) v ps"
proof (induction ps arbitrary: l w)
  case Nil
  then show ?case by simp
next
  case (Cons p ps)
  obtain k h where p: "p = (k, h)" by (cases p)
  from Cons.prems p have k: "0 < k" and h: "0 < h"
    and pulse: "echo_pulse (echo_levels w) (reads w) k h"
    and rest: "echo_pulses (echo_levels w) (reads w + k + h + 2) ps"
    by simp_all
  let ?w1 = "w\<lparr>reads := reads w + k + h + 2, ticks := ticks w + k + h,
                  trace := trace w @ reading_trace self (k + h + 2)\<rparr>"
  let ?d = "(clock w (ticks w + k + h - 1) - clock w (ticks w + k - 1)) * ((v * 100) / 2)"
  let ?l1 = "\<lparr>sonar_signal_off = Some (clock w (ticks w + k - 1)),
              sonar_signal_on = Some (clock w (ticks w + k + h - 1)),
              sample = sample l @ [?d]\<rparr>"
  have r: "distance_reading self sample_wait v l w = Some (Inr ?l1, ?w1)"
    using distance_reading_pulse [OF wait pulse, of self v l] k h by (simp add: Let_def)
  have "echo_pulses (echo_levels ?w1) (reads ?w1) ps" using rest by simp
  from Cons.IH [OF this, of ?l1] obtain l' where
    loop: "sample_loop (length ps) self sample_wait v ?l1 ?w1 =
        Some (Inr l', ?w1\<lparr>reads := reads ?w1 + pulse_reads ps, ticks := ticks ?w1 + pulse_ticks ps,
                         trace := trace ?w1 @ pulses_trace self ps\<rparr>)"
    and smp: "sample l' = sample ?l1 @ spec_distances (clock ?w1) (ticks ?w1) v ps"
    by blast
  have "sample_loop (length (p # ps)) self sample_wait v l w =
      sample_loop (length ps) self sample_wait v ?l1 ?w1"
    by (simp add: r)
  with loop smp show ?case
    by (intro exI [of _ l']) (simp add: p add.assoc)
qed

lemma sorted_sample_middle_index:
  assumes "length smp = nat n" "0 < n"
  shows "sorted_sample_middle smp n = Inr (sort smp ! nat (n div 2))"
  using assms by (simp add: sorted_sample_middle_def list_index_def Let_def)

lemma length_spec_distances [simp]: "length (spec_distances c t v ps) = length ps"
  by (induction ps arbitrary: t) auto

lemma echo_low_wait_reads:
  "c \<le> 1000 \<Longrightarrow> reads (snd (echo_low_wait pin c off w)) \<le> reads w + nat (1001 - c)"
proof (induction pin c off w rule: echo_low_wait.induct)
  case (1 pin c off w)
  show ?case
  proof (cases "echo_levels w (reads w) = 0 \<and> c < 1000")
    case True
    let ?w2 = "w\<lparr>reads := Suc (reads w), trace := trace w @ [Digital_read pin], ticks := Suc (ticks w)\<rparr>"
    have step: "echo_low_wait pin c off w = echo_low_wait pin (c + 1) (Some (clock w (ticks w))) ?w2"
      using True by (subst echo_low_wait.simps) (simp add: digital_read_def time_time_def)
    have "reads (snd (echo_low_wait pin (c + 1) (Some (clock w (ticks w))) ?w2))
        \<le> reads ?w2 + nat (1001 - (c + 1))"
      using True "1.IH" [of "echo_levels w (reads w)" "snd (digital_read pin w)"
          "clock w (ticks w)" ?w2]
      by (simp add: digital_read_def time_time_def)
    then show ?thesis unfolding step using True by simp linarith
  next
    case False
    then show ?thesis using "1.prems"
      by (subst echo_low_wait.simps) (auto simp: digital_read_def)
  qed
qed

lemma echo_low_wait_raises_iff:
  "(\<exists>e. fst (echo_low_wait pin 1 off w) = Inl e) \<longleftrightarrow>
   (\<forall>i<1000. echo_levels w (reads w + i) = 0)"
proof
  assume raised: "\<exists>e. fst (echo_low_wait pin 1 off w) = Inl e"
  show "\<forall>i<1000. echo_levels w (reads w + i) = 0"
  proof (rule ccontr)
    assume "\<not> (\<forall>i<1000. echo_levels w (reads w + i) = 0)"
    then have ex: "\<exists>i. i < 1000 \<and> echo_levels w (reads w + i) \<noteq> 0" by blast
    define k where "k = (LEAST i. i < 1000 \<and> echo_levels w (reads w + i) \<noteq> 0)"
    from LeastI_ex [OF ex] have k: "k < 1000" "echo_levels w (reads w + k) \<noteq> 0"
      unfolding k_def by blast+
    have lo: "\<forall>i<k. echo_levels w (reads w + i) = 0"
    proof (intro allI impI)
      fix i assume "i < k"
      then have "\<not> (i < 1000 \<and> echo_levels w (reads w + i) \<noteq> 0)"
        unfolding k_def by (rule not_less_Least)
      with \<open>i < k\<close> k(1) show "echo_levels w (reads w + i) = 0" by simp
    qed
    have "fst (echo_low_wait pin 1 off w) = Inr (if k = 0 then off else Some (clock w (ticks w + k - 1)))"
      using echo_low_wait_edge [OF lo k(2), of 1 pin off] k(1) by simp
    with raised show False by simp
  qed
next
  assume lo: "\<forall>i<1000. echo_levels w (reads w + i) = 0"
  then have "\<forall>i\<le>999. echo_levels w (reads w + i) = 0" by simp
  from echo_low_wait_timeout [OF this, of 1 pin off] show "\<exists>e. fst (echo_low_wait pin 1 off w) = Inl e"
    by simp
qed

lemma sample_loop_pulses_then:
  assumes wait: "0 \<le> sample_wait"
    and pulses: "echo_pulses (echo_levels w) (reads w) ps"
  shows "\<exists>l'. sample_loop (length ps + Suc m) self sample_wait v l w =
     (case distance_reading self sample_wait v l'
             (w\<lparr>reads := reads w + pulse_reads ps, ticks := ticks w + pulse_ticks ps,
                trace := trace w @ pulses_trace self ps\<rparr>) of
        None \<Rightarrow> None
      | Some (Inl e, w') \<Rightarrow> Some (Inl e, w')
      | Some (Inr l'', w') \<Rightarrow> sample_loop m self sample_wait v l'' w')"
proof -
  from sample_loop_pulses [OF wait pulses, of self v l] obtain l' where
    loop: "sample_loop (length ps) self sample_wait v l w =
        Some (Inr l', w\<lparr>reads := reads w + pulse_reads ps, ticks := ticks w + pulse_ticks ps,
                         trace := trace w @ pulses_trace self ps\<rparr>)"
    by blast
  show ?thesis
    unfolding sample_loop_add loop option.case prod.case sum.case sample_loop.simps
    by blast
qed

lemma with_block_sorted_middle:
  assumes pos: "0 < sample_size"
    and loop: "sample_loop (nat sample_size) self sample_wait v
        \<lparr>sonar_signal_off = None, sonar_signal_on = None, sample = []\<rparr>
        (gpio_enter (pins self) w) = Some (Inr l, w2)"
  shows "with_block self sample_size sample_wait v w =
      Some (Inr (sort (sample l) ! nat (sample_size div 2)), gpio_exit w2) \<and>
    length (sample l) = nat sample_size \<and>
    (even sample_size \<longrightarrow>
       nat (sample_size div 2) = length (sample l) div 2 \<and>
       sort (sample l) ! (length (sample l) div 2 - 1)
         \<le> sort (sample l) ! nat (sample_size div 2))"
proof -
  have len: "length (sample l) = nat sample_size"
    using sample_loop_length [OF loop] by simp
  have ret: "with_block self sample_size sample_wait v w =
      Some (Inr (sort (sample l) ! nat (sample_size div 2)), gpio_exit w2)"
    unfolding with_block_def Let_def loop option.case prod.case sum.case
    by (simp add: sorted_sample_middle_index [OF len pos])
  have idx: "nat (sample_size div 2) = length (sample l) div 2"
    using len pos by (simp add: nat_div_distrib)
  have "length (sample l) div 2 < length (sort (sample l))" using len pos by simp
  then have le: "sort (sample l) ! (length (sample l) div 2 - 1)
      \<le> sort (sample l) ! (length (sample l) div 2)"
    by (intro sorted_nth_mono) simp_all
  from ret len idx le show ?thesis by simp
qed

lemma with_block_pulses:
  assumes wait: "0 \<le> sample_wait"
    and pulses: "echo_pulses (echo_levels w) (reads w) ps"
    and n: "sample_size = int (length ps)" and ne: "ps \<noteq> []"
  shows "with_block self sample_size sample_wait v w =
     Some (Inr (sort (spec_distances (clock w) (ticks w) v ps) ! (length ps div 2)),
           w\<lparr>reads := reads w + pulse_reads ps, ticks := ticks w + pulse_ticks ps,
             trace := trace w @ [Acquire (pins self)] @ pulses_trace self ps @ [Release]\<rparr>)"
proof -
  let ?l0 = "\<lparr>sonar_signal_off = None, sonar_signal_on = None, sample = []\<rparr>"
  let ?w1 = "gpio_enter (pins self) w"
  have "echo_pulses (echo_levels ?w1) (reads ?w1) ps" using pulses by (simp add: gpio_enter_def)
  from sample_loop_pulses [OF wait this, of self v ?l0] obtain l' where
    loop: "sample_loop (length ps) self sample_wait v ?l0 ?w1 =
        Some (Inr l', ?w1\<lparr>reads := reads ?w1 + pulse_reads ps, ticks := ticks ?w1 + pulse_ticks ps,
                         trace := trace ?w1 @ pulses_trace self ps\<rparr>)"
    and smp: "sample l' = sample ?l0 @ spec_distances (clock ?w1) (ticks ?w1) v ps"
    by blast
  have pos: "0 < sample_size" using n ne by simp
  have loop': "sample_loop (nat sample_size) self sample_wait v ?l0 ?w1 =
        Some (Inr l', ?w1\<lparr>reads := reads ?w1 + pulse_reads ps, ticks := ticks ?w1 + pulse_ticks ps,
                         trace := trace ?w1 @ pulses_trace self ps\<rparr>)"
    unfolding n nat_int by (rule loop)
  have idx: "nat (sample_size div 2) = length ps div 2" using n by (simp add: zdiv_int)
  from with_block_sorted_middle [OF pos loop', THEN conjunct1] smp idx show ?thesis
    by (simp add: gpio_enter_def gpio_exit_def)
qed

lemma with_block_timeout:
  assumes wait: "0 \<le> sample_wait"
    and pulses: "echo_pulses (echo_levels w) (reads w) ps"
    and more: "int (length ps) < sample_size"
    and lo: "\<forall>i<1000. echo_levels w (reads w + pulse_reads ps + i) = 0"
  shows "with_block self sample_size sample_wait v w =
      Some (Inl (SystemError ''Echo pulse was not received''),
        w\<lparr>reads := reads w + pulse_reads ps + 1000, ticks := ticks w + pulse_ticks ps + 999,
          trace := trace w @ [Acquire (pins self)] @ pulses_trace self ps @
            reading_trace self 1000 @ [Release]\<rparr>)"
proof -
  let ?l0 = "\<lparr>sonar_signal_off = None, sonar_signal_on = None, sample = []\<rparr>"
  let ?w1 = "gpio_enter (pins self) w"
  let ?w2 = "?w1\<lparr>reads := reads ?w1 + pulse_reads ps, ticks := ticks ?w1 + pulse_ticks ps,
                trace := trace ?w1 @ pulses_trace self ps\<rparr>"
  from more obtain m where n: "nat sample_size = length ps + Suc m"
    by (metis add_Suc_right less_imp_Suc_add zless_nat_eq_int_zless)
  have p: "echo_pulses (echo_levels ?w1) (reads ?w1) ps" using pulses by (simp add: gpio_enter_def)
  from sample_loop_pulses_then [OF wait p, of m self v ?l0] obtain l' where
    loop: "sample_loop (length ps + Suc m) self sample_wait v ?l0 ?w1 =
     (case distance_reading self sample_wait v l' ?w2 of
        None \<Rightarrow> None
      | Some (Inl e, w') \<Rightarrow> Some (Inl e, w')
      | Some (Inr l'', w') \<Rightarrow> sample_loop m self sample_wait v l'' w')"
    by blast
  have "\<forall>i<1000. echo_levels ?w2 (reads ?w2 + i) = 0" using lo by (simp add: gpio_enter_def)
  note r = distance_reading_timeout [OF wait this, of self v l']
  show ?thesis
    unfolding with_block_def Let_def n loop r option.case prod.case sum.case
    by (simp add: gpio_enter_def gpio_exit_def)
qed

lemma with_block_forever:
  assumes wait: "0 \<le> sample_wait"
    and pulses: "echo_pulses (echo_levels w) (reads w) ps"
    and more: "int (length ps) < sample_size"
    and k: "k < 1000"
    and lo: "\<forall>i<k. echo_levels w (reads w + pulse_reads ps + i) = 0"
    and edge: "echo_levels w (reads w + pulse_reads ps + k) \<noteq> 0"
    and hi: "\<forall>i. echo_levels w (reads w + pulse_reads ps + Suc k + i) = 1"
  shows "with_block self sample_size sample_wait v w = None"
proof -
  let ?l0 = "\<lparr>sonar_signal_off = None, sonar_signal_on = None, sample = []\<rparr>"
  let ?w1 = "gpio_enter (pins self) w"
  let ?w2 = "?w1\<lparr>reads := reads ?w1 + pulse_reads ps, ticks := ticks ?w1 + pulse_ticks ps,
                trace := trace ?w1 @ pulses_trace self ps\<rparr>"
  from more obtain m where n: "nat sample_size = length ps + Suc m"
    by (metis add_Suc_right less_imp_Suc_add zless_nat_eq_int_zless)
  have p: "echo_pulses (echo_levels ?w1) (reads ?w1) ps" using pulses by (simp add: gpio_enter_def)
  from sample_loop_pulses_then [OF wait p, of m self v ?l0] obtain l' where
    loop: "sample_loop (length ps + Suc m) self sample_wait v ?l0 ?w1 =
     (case distance_reading self sample_wait v l' ?w2 of
        None \<Rightarrow> None
      | Some (Inl e, w') \<Rightarrow> Some (Inl e, w')
      | Some (Inr l'', w') \<Rightarrow> sample_loop m self sample_wait v l'' w')"
    by blast
  have a: "\<forall>i<k. echo_levels ?w2 (reads ?w2 + i) = 0" using lo by (simp add: gpio_enter_def)
  have b: "echo_levels ?w2 (reads ?w2 + k) \<noteq> 0" using edge by (simp add: gpio_enter_def)
  have c: "\<forall>i. echo_levels ?w2 (reads ?w2 + Suc k + i) = 1" using hi by (simp add: gpio_enter_def)
  note r = distance_reading_forever [OF wait k a b c, of self v l']
  show ?thesis
    unfolding with_block_def Let_def n loop r option.case ..
qed

lemma with_block_unassigned:
  assumes wait: "0 \<le> sample_wait"
    and pos: "0 < sample_size"
    and first: "echo_pulse (echo_levels w) (reads w) 0 h"
  shows "with_block self sample_size sample_wait v w =
      Some (Inl (UnboundLocalError (if h = 0 then ''sonar_signal_on'' else ''sonar_signal_off'')),
        w\<lparr>reads := reads w + h + 2, ticks := ticks w + h,
          trace := trace w @ [Acquire (pins self)] @ reading_trace self (h + 2) @ [Release]\<rparr>)"
proof -
  let ?l0 = "\<lparr>sonar_signal_off = None, sonar_signal_on = None, sample = []\<rparr>"
  let ?w1 = "gpio_enter (pins self) w"
  let ?w2 = "?w1\<lparr>reads := reads ?w1 + 0 + h + 2, ticks := ticks ?w1 + 0 + h,
                  trace := trace ?w1 @ reading_trace self (0 + h + 2)\<rparr>"
  from pos obtain m where n: "nat sample_size = Suc m"
    by (metis Suc_pred' zero_less_nat_eq)
  have p: "echo_pulse (echo_levels ?w1) (reads ?w1) 0 h" using first by (simp add: gpio_enter_def)
  have r: "distance_reading self sample_wait v ?l0 ?w1 =
      Some (Inl (UnboundLocalError (if h = 0 then ''sonar_signal_on'' else ''sonar_signal_off'')), ?w2)"
    unfolding distance_reading_pulse [OF wait p] by (simp add: Let_def)
  show ?thesis
    unfolding with_block_def Let_def n sample_loop.simps r option.case prod.case sum.case
    by (simp add: gpio_enter_def gpio_exit_def)
qed

lemma distance_reading_stale:
  assumes wait: "0 \<le> sample_wait"
    and p: "echo_pulse (echo_levels w) (reads w) 0 h" and h: "0 < h"
    and off: "sonar_signal_off l = Some t_prev"
  shows "distance_reading self sample_wait v l w =
         Some (Inr \<lparr>sonar_signal_off = Some t_prev,
                     sonar_signal_on = Some (clock w (ticks w + h - 1)),
                     sample = sample l @ [(clock w (ticks w + h - 1) - t_prev) * ((v * 100) / 2)]\<rparr>,
           w\<lparr>reads := reads w + h + 2, ticks := ticks w + h,
              trace := trace w @ reading_trace self (h + 2)\<rparr>)"
  unfolding distance_reading_pulse [OF wait p] using h off by (simp add: Let_def)

section \<open>The block on the example inputs\<close>

text \<open>
  What \<open>with_block\<close> does on the inputs used below, with the speed of sound at 0
  degrees Celsius, \<open>331.3\<close> metres per second: the sorted middle 7 of the distances
  7, 5, 8, 6; the echo timeout after one good sample and 1000 polls; no return when the
  echo stays high; the unassigned \<^verbatim>\<open>sonar_signal_off\<close>.
\<close>

lemma with_block_example_middle:
  "with_block (example_sensor 0 ''metric'') 4 (1 / 10) (3313 / 10)
     (fresh_world square_wave (stamps [7 / 16565, 5 / 16565, 8 / 16565, 6 / 16565])) =
   Some (Inr 7,
     \<lparr>echo_levels = square_wave, clock = stamps [7 / 16565, 5 / 16565, 8 / 16565, 6 / 16565],
      reads = 16, ticks = 8,
      trace = Acquire [(36, ''out''), (13, ''in'')] #
        pulses_trace (example_sensor 0 ''metric'') [(1, 1), (1, 1), (1, 1), (1, 1)] @
        [Release]\<rparr>)"
proof -
  let ?wa = "fresh_world square_wave (stamps [7 / 16565, 5 / 16565, 8 / 16565, 6 / 16565])"
  have p: "echo_pulses (echo_levels ?wa) (reads ?wa) [(1, 1), (1, 1), (1, 1), (1, 1)]"
    by (simp add: fresh_world_def echo_pulse_def square_wave_def)
  have w: "(0::real) \<le> 1 / 10" by simp
  from with_block_pulses [OF w p, of 4 "example_sensor 0 ''metric''" "3313 / 10"]
  show ?thesis
    by (simp add: fresh_world_def stamps_def example_sensor_def del: pulses_trace.simps)
qed

lemma with_block_example_timeout:
  "with_block (example_sensor 20 ''metric'') 11 (1 / 10) v (fresh_world stuck_low real) =
   Some (Inl (SystemError ''Echo pulse was not received''),
     \<lparr>echo_levels = stuck_low, clock = real, reads = 1004, ticks = 1001,
      trace = Acquire [(36, ''out''), (13, ''in'')] #
        pulses_trace (example_sensor 20 ''metric'') [(1, 1)] @
        reading_trace (example_sensor 20 ''metric'') 1000 @ [Release]\<rparr>)"
proof -
  let ?wa = "fresh_world stuck_low real"
  have p: "echo_pulses (echo_levels ?wa) (reads ?wa) [(1, 1)]"
    by (simp add: fresh_world_def echo_pulse_def stuck_low_def square_wave_def)
  have lo: "\<forall>i<1000. echo_levels ?wa (reads ?wa + pulse_reads [(1, 1)] + i) = 0"
    by (simp add: fresh_world_def stuck_low_def)
  have w: "(0::real) \<le> 1 / 10" and m: "int (length [(1::nat, 1::nat)]) < 11" by simp_all
  from with_block_timeout [OF w p m lo, of "example_sensor 20 ''metric''" v]
  show ?thesis
    by (simp add: fresh_world_def example_sensor_def del: pulses_trace.simps)
qed

lemma with_block_example_forever:
  "with_block (example_sensor 20 ''metric'') 11 (1 / 10) v (fresh_world stuck_high real) = None"
proof -
  let ?wa = "fresh_world stuck_high real"
  have p: "echo_pulses (echo_levels ?wa) (reads ?wa) [(1, 1)]"
    by (simp add: fresh_world_def echo_pulse_def stuck_high_def square_wave_def)
  have k: "(1::nat) < 1000" by simp
  have lo: "\<forall>i<1. echo_levels ?wa (reads ?wa + pulse_reads [(1, 1)] + i) = 0"
    by (simp add: fresh_world_def stuck_high_def)
  have edge: "echo_levels ?wa (reads ?wa + pulse_reads [(1, 1)] + 1) \<noteq> 0"
    by (simp add: fresh_world_def stuck_high_def)
  have hi: "\<forall>i. echo_levels ?wa (reads ?wa + pulse_reads [(1, 1)] + Suc 1 + i) = 1"
    by (simp add: fresh_world_def stuck_high_def)
  have w: "(0::real) \<le> 1 / 10" and m: "int (length [(1::nat, 1::nat)]) < 11" by simp_all
  show ?thesis by (rule with_block_forever [OF w p m k lo edge hi])
qed

lemma with_block_example_unassigned:
  "with_block (example_sensor 20 ''metric'') 11 (1 / 10) v (fresh_world early_high real) =
   Some (Inl (UnboundLocalError ''sonar_signal_off''),
     \<lparr>echo_levels = early_high, clock = real, reads = 3, ticks = 1,
      trace = Acquire [(36, ''out''), (13, ''in'')] #
        reading_trace (example_sensor 20 ''metric'') 3 @ [Release]\<rparr>)"
proof -
  let ?wa = "fresh_world early_high real"
  have p: "echo_pulse (echo_levels ?wa) (reads ?wa) 0 1"
    by (simp add: fresh_world_def echo_pulse_def early_high_def)
  have w: "(0::real) \<le> 1 / 10" and n: "(0::int) < 11" by simp_all
  from with_block_unassigned [OF w n p, of "example_sensor 20 ''metric''" v]
  show ?thesis
    by (simp add: fresh_world_def example_sensor_def numeral_3_eq_3)
qed

section \<open>The call\<close>

text \<open>
  Every call of \<^verbatim>\<open>raw_distance\<close> returns an error, and one of three: the unit error
  of line 77, the domain error of \<^verbatim>\<open>math.sqrt\<close> at line 80 (a temperature below
  \<open>-273.15\<close> degrees Celsius), or the \<^verbatim>\<open>UnboundLocalError\<close> of line 83. The world is
  returned as it was: no pin is acquired, written or read and the clock is not asked. For
  a valid unit the object comes back with the temperature of \<open>spec_celsius\<close>.
\<close>

lemma raw_distance_outcome:
  "raw_distance self sample_size sample_wait w =
     (if unit self = ''imperial'' \<or> unit self = ''metric'' then
        Some (Inl (if 1 + spec_celsius (unit self) (temperature self) / 273.15 < 0
                   then ValueError ''math domain error'' else UnboundLocalError ''GPIO''),
              self\<lparr>temperature := spec_celsius (unit self) (temperature self)\<rparr>, w)
      else Some (Inl (ValueError ''Wrong Unit Type. Unit Must be imperial or metric''), self, w))"
  by (simp add: raw_distance_def measure_block_def math_sqrt_def spec_celsius_def Let_def)

section \<open>Claims about the unit check, the constructor and the conversions\<close>

text \<open>
  C9. A call of \<^verbatim>\<open>raw_distance\<close> on an object whose unit is neither "metric" nor
  "imperial" returns the \<^verbatim>\<open>ValueError\<close> of line 77 and leaves the world as it
  was: no pin has been acquired, written or read (the trace and the read counter are
  unchanged), and the object is unchanged.
\<close>

theorem raw_distance_wrong_unit:
  assumes "unit self \<noteq> ''imperial''" and "unit self \<noteq> ''metric''"
  shows "raw_distance self sample_size sample_wait w =
     Some (Inl (ValueError ''Wrong Unit Type. Unit Must be imperial or metric''), self, w)"
  using assms by (simp add: raw_distance_def)

theorem raw_distance_wrong_unit_witness:
  "raw_distance (example_sensor 20 ''kelvin'') 11 (1 / 10) (fresh_world square_wave real) =
   Some (Inl (ValueError ''Wrong Unit Type. Unit Must be imperial or metric''),
     example_sensor 20 ''kelvin'', fresh_world square_wave real)"
  by (rule raw_distance_wrong_unit) (simp_all add: example_sensor_def)

text \<open>
  C2, as the specification states it, fails: the constructor called with the unit
  "kelvin" returns an object.
\<close>

theorem init_kelvin_succeeds:
  "Measurement_init 36 13 20 ''kelvin'' 1 =
     Inr \<lparr>trig_pin = 36, echo_pin = 13, temperature = 20, unit = ''kelvin'', round_to = 1,
          pins = [(36, ''out''), (13, ''in'')]\<rparr>"
  by (simp add: Measurement_init_def)

text \<open>
  C2, amended. The constructor returns an object for every unit and stores the unit as
  given; a unit that is neither "metric" nor "imperial" is rejected by the first call of
  \<^verbatim>\<open>raw_distance\<close> on that object, before any pin is touched.
\<close>

theorem init_stores_unit_unchecked:
  "\<exists>self. Measurement_init trig echo temp u r = Inr self \<and> unit self = u \<and>
     (u \<noteq> ''imperial'' \<and> u \<noteq> ''metric'' \<longrightarrow>
        raw_distance self sample_size sample_wait w =
          Some (Inl (ValueError ''Wrong Unit Type. Unit Must be imperial or metric''), self, w))"
  by (simp add: Measurement_init_def raw_distance_def)

theorem init_stores_unit_unchecked_witness:
  "\<exists>self. Measurement_init 36 13 20 ''kelvin'' 1 = Inr self \<and> unit self = ''kelvin'' \<and>
     raw_distance self 11 (1 / 10) (fresh_world square_wave real) =
       Some (Inl (ValueError ''Wrong Unit Type. Unit Must be imperial or metric''), self,
         fresh_world square_wave real)"
  using init_stores_unit_unchecked [of 36 13 20 "''kelvin''" 1 11 "1 / 10"
      "fresh_world square_wave real"]
  by simp

text \<open>
  C8. Each of the four conversion methods returns \<^verbatim>\<open>round\<close> of the stated
  expression to \<^verbatim>\<open>round_to\<close> digits, and its result depends on the object through
  \<^verbatim>\<open>round_to\<close> alone. The methods return a number only: unlike \<open>raw_distance\<close>,
  which hands back the object it has changed, they have no assignment to hand back.
\<close>

theorem conversions_round_only:
  "distance_metric self raw_cm = py_round raw_cm (round_to self) \<and>
   distance_imperial self raw_cm = py_round (raw_cm * 0.394) (round_to self) \<and>
   depth_metric self raw_cm hole_depth = py_round (hole_depth - raw_cm) (round_to self) \<and>
   depth_imperial self raw_cm hole_depth =
     py_round (hole_depth - raw_cm * 0.394) (round_to self) \<and>
   (round_to other = round_to self \<longrightarrow>
      distance_metric other raw_cm = distance_metric self raw_cm \<and>
      distance_imperial other raw_cm = distance_imperial self raw_cm \<and>
      depth_metric other raw_cm hole_depth = depth_metric self raw_cm hole_depth \<and>
      depth_imperial other raw_cm hole_depth = depth_imperial self raw_cm hole_depth)"
  by (simp add: distance_metric_def distance_imperial_def depth_metric_def depth_imperial_def)

theorem conversions_round_only_witness:
  "distance_metric (example_sensor 20 ''metric'') (1014 / 100) = 101 / 10 \<and>
   distance_imperial (example_sensor 20 ''metric'') 100 = 394 / 10 \<and>
   depth_metric (example_sensor 20 ''metric'') (1014 / 100) 50 = 399 / 10 \<and>
   depth_imperial (example_sensor 20 ''metric'') 100 50 = 106 / 10 \<and>
   distance_metric (example_sensor 68 ''imperial'') (1014 / 100) =
     distance_metric (example_sensor 20 ''metric'') (1014 / 100) \<and>
   distance_imperial (example_sensor 68 ''imperial'') 100 =
     distance_imperial (example_sensor 20 ''metric'') 100 \<and>
   depth_metric (example_sensor 68 ''imperial'') (1014 / 100) 50 =
     depth_metric (example_sensor 20 ''metric'') (1014 / 100) 50 \<and>
   depth_imperial (example_sensor 68 ''imperial'') 100 50 =
     depth_imperial (example_sensor 20 ''metric'') 100 50"
  using conversions_round_only [of "example_sensor 20 ''metric''" "1014 / 100" 50
      "example_sensor 68 ''imperial''"]
    conversions_round_only [of "example_sensor 20 ''metric''" 100 50
      "example_sensor 68 ''imperial''"]
  by (simp add: example_sensor_def py_round_def round_half_even_def Let_def)

section \<open>The claim about the stored temperature\<close>

text \<open>
  C3, evaluated on the code. The imperial branch assigns the converted value to
  \<^verbatim>\<open>self.temperature\<close>, so a second call converts the converted value again: an
  object built with 68 degrees Fahrenheit holds 20.0016 after the first call and
  -6.66631104 after the second. (Both calls end at line 83, after the assignment.)
\<close>

theorem raw_distance_twice_imperial:
  "raw_distance (example_sensor 68 ''imperial'') 1 (1 / 10) (fresh_world square_wave real) =
     Some (Inl (UnboundLocalError ''GPIO''), example_sensor 20.0016 ''imperial'',
       fresh_world square_wave real) \<and>
   raw_distance (example_sensor 20.0016 ''imperial'') 1 (1 / 10) (fresh_world square_wave real) =
     Some (Inl (UnboundLocalError ''GPIO''), example_sensor (- 6.66631104) ''imperial'',
       fresh_world square_wave real)"
  by (simp add: raw_distance_outcome example_sensor_def spec_celsius_def)

section \<open>Claims that need the block under line 83\<close>

text \<open>
  The claims below describe what lines 84-106 compute. Each is evaluated on the code at an
  input on which the block, were it entered, would do what the claim says (the lemmas on
  \<open>with_block\<close> above); the call itself ends at line 83.
\<close>

text \<open>
  C1, evaluated on the code. Four samples whose echo pulses last 7, 5, 8 and 6 units of
  \<open>1 / 16565\<close> seconds, at 0 degrees Celsius: the block would sort the distances
  7, 5, 8, 6 and return 7. The call returns the \<^verbatim>\<open>UnboundLocalError\<close> of line 83
  instead, with no reading made.
\<close>

theorem raw_distance_no_sorted_middle:
  "raw_distance (example_sensor 0 ''metric'') 4 (1 / 10)
     (fresh_world square_wave (stamps [7 / 16565, 5 / 16565, 8 / 16565, 6 / 16565])) =
   Some (Inl (UnboundLocalError ''GPIO''), example_sensor 0 ''metric'',
     fresh_world square_wave (stamps [7 / 16565, 5 / 16565, 8 / 16565, 6 / 16565]))"
  by (simp add: raw_distance_outcome example_sensor_def spec_celsius_def)


text \<open>
  C5, evaluated on the code. An echo line that never goes high after its first pulse: the
  call does not poll it 1000 times and raise the \<^verbatim>\<open>SystemError\<close> of line 96; it
  polls it not once and raises the \<^verbatim>\<open>UnboundLocalError\<close> of line 83.
\<close>

theorem raw_distance_no_echo_timeout:
  "raw_distance (example_sensor 20 ''metric'') 11 (1 / 10) (fresh_world stuck_low real) =
   Some (Inl (UnboundLocalError ''GPIO''), example_sensor 20 ''metric'',
     fresh_world stuck_low real)"
  by (simp add: raw_distance_outcome example_sensor_def spec_celsius_def)

text \<open>
  C6, evaluated on the code. An echo line that stays high for ever in the second sample:
  the loop of lines 97-98 would never exit, but the call does not reach it. It returns,
  with the \<^verbatim>\<open>UnboundLocalError\<close> of line 83.
\<close>

theorem raw_distance_returns_on_stuck_high:
  "raw_distance (example_sensor 20 ''metric'') 11 (1 / 10) (fresh_world stuck_high real) =
   Some (Inl (UnboundLocalError ''GPIO''), example_sensor 20 ''metric'',
     fresh_world stuck_high real)"
  by (simp add: raw_distance_outcome example_sensor_def spec_celsius_def)

text \<open>
  C7, evaluated on the code. Two samples asked for, on two well-formed pulses: the call
  returns the \<^verbatim>\<open>UnboundLocalError\<close> of line 83 with the read counter and the clock
  counter where they were, so no timestamp is taken and no distance is collected.
\<close>

theorem raw_distance_collects_nothing:
  "raw_distance (example_sensor 0 ''metric'') 2 (1 / 10)
     (fresh_world square_wave (stamps [7 / 16565, 5 / 16565])) =
   Some (Inl (UnboundLocalError ''GPIO''), example_sensor 0 ''metric'',
     fresh_world square_wave (stamps [7 / 16565, 5 / 16565])) \<and>
   reads (fresh_world square_wave (stamps [7 / 16565, 5 / 16565])) = 0 \<and>
   ticks (fresh_world square_wave (stamps [7 / 16565, 5 / 16565])) = 0"
  by (simp add: raw_distance_outcome example_sensor_def spec_celsius_def fresh_world_def)


end
